theory Spec2Isabelle
  imports Main
begin

section \<open>The ban component of the moderation system (components/moderation/ban.ts)\<close>

text \<open>
  The two command handlers of \<^verbatim>\<open>ban.ts\<close>, \<^verbatim>\<open>ban_handler\<close> and \<^verbatim>\<open>unban_handler\<close>, are
  embedded as functions over the moderation collection of the database. Everything a
  handler calls outside of \<^verbatim>\<open>ban.ts\<close> (Discord, the command object, the helpers of the
  moderation base class) is a collaborator: what a collaborator answers, and whether it
  throws, is read from an environment record, and every call that acts on the outside
  world is written to a trace of events. A JavaScript exception is a value of type \<open>exn\<close>;
  a computation returns \<open>Inl e\<close> when it throws \<open>e\<close>.
\<close>

subsection \<open>Data model\<close>

type_synonym snowflake = string
type_synonym object_id = nat
type_synonym moderation_type = string

text \<open>The sub-record stored under \<^verbatim>\<open>removed\<close> and \<^verbatim>\<open>expunged\<close>.\<close>

record moderation_edit_info =
  edit_moderator :: snowflake
  edit_moderator_name :: string
  edit_reason :: "string option"
  edit_timestamp :: nat

text \<open>\<^verbatim>\<open>moderation_entry\<close>, with the fields the object literal of \<^verbatim>\<open>ban_handler\<close> sets.\<close>

record moderation_entry =
  case_number :: int
  user :: snowflake
  user_name :: string
  moderator :: snowflake
  moderator_name :: string
  mtype :: moderation_type
  reason :: "string option"
  issued_at :: nat
  duration :: "nat option"
  active :: bool
  removed :: "moderation_edit_info option"
  expunged :: "moderation_edit_info option"
  link :: string

text \<open>\<^verbatim>\<open>mongo.WithId<moderation_entry>\<close>: a document is an entry with its \<^verbatim>\<open>_id\<close>.\<close>

type_synonym document = "object_id \<times> moderation_entry"
type_synonym moderations = "document list"

text \<open>\<^verbatim>\<open>Discord.User\<close> and the \<^verbatim>\<open>TextBasedCommand\<close>, as far as the handlers read them.\<close>

record discord_user =
  user_id :: snowflake
  displayName :: string

record text_based_command =
  command_user_id :: snowflake
  forged_url :: string

text \<open>
  Exceptions: the \<^verbatim>\<open>AssertionError\<close> of \<^verbatim>\<open>assert\<close>, and an error of a collaborator with
  its internal diagnostic text.
\<close>

datatype exn = AssertionError | Error string

text \<open>
  The number returned by the duration parser: a span in milliseconds or JavaScript's
  \<^verbatim>\<open>Infinity\<close>. The parser's \<^verbatim>\<open>null\<close> is \<open>None\<close> of the option type around it.
\<close>

datatype duration_ms = Ms nat | Infinity

subsection \<open>Events and the environment\<close>

datatype event =
    LogInfo string
  | BansFetch snowflake
  | ReplyWithError string
  | ReplyWithSuccessAction snowflake string bool bool "int option"
  | NotifyUser snowflake string moderation_entry
  | RegisterNewModeration moderation_entry
  | FindOneAndUpdate snowflake moderation_edit_info
  | MembersUnban snowflake "string option"
  | SleepListRemove object_id
  | StaffActionLogSend int
  | CriticalError exn

text \<open>
  The environment gives the outcome of every collaborator call of one handler
  invocation. \<open>Inr\<close> is a normal return (a resolved promise), \<open>Inl e\<close> the exception \<open>e\<close>
  (a rejected promise). The reply helper is asked with the message it is given, so that
  two replies of one invocation may end differently.
\<close>

record env =
  is_authorized_mod :: "discord_user \<Rightarrow> exn + bool"
  bans_fetch :: "snowflake \<Rightarrow> exn + unit"
  parse_duration :: "string \<Rightarrow> duration_ms option"
  get_member_displayName :: "exn + string"
  date_now :: nat
  notify_user_outcome :: "exn + unit"
  register_new_moderation_outcome :: "moderation_entry \<Rightarrow> exn + int"
  reply_with_error_outcome :: "string \<Rightarrow> exn + unit"
  reply_with_success_action_outcome :: "exn + unit"
  database_outcome :: "exn + unit"
  members_unban_outcome :: "exn + unit"
  sleep_list_remove_outcome :: "exn + unit"
  users_fetch_outcome :: "exn + unit"
  staff_action_log_send_outcome :: "exn + unit"

subsection \<open>Computations: result, collection and emitted events\<close>

type_synonym 'a io = "moderations \<Rightarrow> (exn + 'a) \<times> moderations \<times> event list"

definition ret :: "'a \<Rightarrow> 'a io" where
  "ret x = (\<lambda>db. (Inr x, db, []))"

definition throw :: "exn \<Rightarrow> 'a io" where
  "throw e = (\<lambda>db. (Inl e, db, []))"

text \<open>Sequencing: the second computation runs only when the first did not throw.\<close>

definition bind :: "'a io \<Rightarrow> ('a \<Rightarrow> 'b io) \<Rightarrow> 'b io" where
  "bind m f = (\<lambda>db.
     case m db of
       (Inl e, db', t) \<Rightarrow> (Inl e, db', t)
     | (Inr x, db', t) \<Rightarrow> (case f x db' of (r, db'', t') \<Rightarrow> (r, db'', t @ t')))"

text \<open>\<^verbatim>\<open>try { m } catch (e) { h(e) }\<close>.\<close>

definition try_catch :: "'a io \<Rightarrow> (exn \<Rightarrow> 'a io) \<Rightarrow> 'a io" where
  "try_catch m h = (\<lambda>db.
     case m db of
       (Inl e, db', t) \<Rightarrow> (case h e db' of (r, db'', t') \<Rightarrow> (r, db'', t @ t'))
     | (Inr x, db', t) \<Rightarrow> (Inr x, db', t))"

text \<open>A collaborator call that reads only: its outcome, no event.\<close>

definition query :: "exn + 'a \<Rightarrow> 'a io" where
  "query r = (\<lambda>db. (r, db, []))"

text \<open>A collaborator call that acts: the call is recorded, then its outcome is returned.\<close>

definition call :: "event \<Rightarrow> exn + 'a \<Rightarrow> 'a io" where
  "call ev r = (\<lambda>db. (r, db, [ev]))"

text \<open>
  \<^verbatim>\<open>return p\<close> of a promise \<open>p\<close> inside \<^verbatim>\<open>try\<close>, without \<^verbatim>\<open>await\<close>: the call has been
  made, the \<^verbatim>\<open>try\<close> block is left normally, and the promise of the async function
  settles as \<open>p\<close> does. The value of the block is the outcome of \<open>p\<close>; a rejection of \<open>p\<close>
  is therefore not an exception of the block.
\<close>

definition return_promise :: "unit io \<Rightarrow> (exn + unit) io" where
  "return_promise p = (\<lambda>db. case p db of (r, db', t) \<Rightarrow> (Inr r, db', t))"

subsection \<open>The collaborators\<close>

text \<open>
  \<^verbatim>\<open>reply_with_error\<close>, \<^verbatim>\<open>reply_with_success_action\<close> and \<^verbatim>\<open>critical_error\<close> are
  imported by \<^verbatim>\<open>ban.ts\<close>, \<^verbatim>\<open>notify_user\<close> and \<^verbatim>\<open>register_new_moderation\<close> are inherited
  from \<^verbatim>\<open>ModerationComponent\<close>; each is a recorded call. All but \<^verbatim>\<open>critical_error\<close> are
  awaited by the handlers, so they are async: a failure is a rejected promise.
  \<^verbatim>\<open>register_new_moderation\<close> writes the assigned case number into the entry it is given
  (\<^verbatim>\<open>ban_handler\<close> reads \<^verbatim>\<open>moderation.case_number\<close> after it); the call returns that
  number. \<^verbatim>\<open>critical_error\<close> is a plain call that returns.
\<close>

definition reply_with_error :: "env \<Rightarrow> string \<Rightarrow> unit io" where
  "reply_with_error E message = call (ReplyWithError message) (reply_with_error_outcome E message)"

definition reply_with_success_action ::
  "env \<Rightarrow> discord_user \<Rightarrow> string \<Rightarrow> bool \<Rightarrow> bool \<Rightarrow> int option \<Rightarrow> unit io" where
  "reply_with_success_action E usr action is_permanent no_reason case_no =
     call (ReplyWithSuccessAction (user_id usr) action is_permanent no_reason case_no)
       (reply_with_success_action_outcome E)"

definition notify_user :: "env \<Rightarrow> discord_user \<Rightarrow> string \<Rightarrow> moderation_entry \<Rightarrow> unit io" where
  "notify_user E usr action moderation =
     call (NotifyUser (user_id usr) action moderation) (notify_user_outcome E)"

definition register_new_moderation :: "env \<Rightarrow> moderation_entry \<Rightarrow> int io" where
  "register_new_moderation E moderation =
     call (RegisterNewModeration moderation) (register_new_moderation_outcome E moderation)"

definition critical_error :: "exn \<Rightarrow> unit io" where
  "critical_error e = call (CriticalError e) (Inr ())"

text \<open>
  Modelled from the spec: \<^verbatim>\<open>parse_nullable_duration\<close> of \<^verbatim>\<open>moderation-common\<close>, which is
  not among the sources. Section 4.1: an absent input gives the default, no expiry; a
  string is parsed by the duration grammar, and a malformed one is signalled (the
  \<^verbatim>\<open>null\<close> that \<^verbatim>\<open>ban_handler\<close> tests for). The grammar itself is the parameter
  \<open>parse_duration\<close> of the environment.
\<close>

definition parse_nullable_duration :: "env \<Rightarrow> string option \<Rightarrow> duration_ms option" where
  "parse_nullable_duration E duration_string =
     (case duration_string of
        None \<Rightarrow> Some Infinity
      | Some s \<Rightarrow> parse_duration E s)"

text \<open>
  MongoDB's \<^verbatim>\<open>findOneAndUpdate(filter, update, {returnDocument: "after"})\<close> on the
  collection: the first document that matches the filter is replaced by its update, in
  one step, and returned as updated; \<^verbatim>\<open>null\<close> when no document matches.
\<close>

fun findOneAndUpdate ::
  "(moderation_entry \<Rightarrow> bool) \<Rightarrow> (moderation_entry \<Rightarrow> moderation_entry) \<Rightarrow> moderations
     \<Rightarrow> document option \<times> moderations" where
  "findOneAndUpdate flt upd [] = (None, [])"
| "findOneAndUpdate flt upd (d # ds) =
     (if flt (snd d) then (Some (fst d, upd (snd d)), (fst d, upd (snd d)) # ds)
      else (case findOneAndUpdate flt upd ds of (res, ds') \<Rightarrow> (res, d # ds')))"

subsection \<open>The methods of class Ban\<close>

text \<open>\<^verbatim>\<open>remove_moderation\<close>: the log line, then the unban with the reason of the removal.\<close>

definition remove_moderation :: "env \<Rightarrow> document \<Rightarrow> unit io" where
  "remove_moderation E entry =
     bind (call (LogInfo (''Unbanning '' @ user_name (snd entry))) (Inr ())) (\<lambda>_.
       call (MembersUnban (user (snd entry))
               (case removed (snd entry) of
                  Some r \<Rightarrow> (case edit_reason r of
                               Some s \<Rightarrow> Some s
                             | None \<Rightarrow> (case expunged (snd entry) of
                                          Some x \<Rightarrow> edit_reason x | None \<Rightarrow> None))
                | None \<Rightarrow> (case expunged (snd entry) of
                             Some x \<Rightarrow> edit_reason x | None \<Rightarrow> None)))
            (members_unban_outcome E))"

text \<open>
  \<^verbatim>\<open>is_moderation_applied\<close>, on the \<^verbatim>\<open>type\<close> and \<^verbatim>\<open>user\<close> of its argument: the assertion
  stands before the \<^verbatim>\<open>try\<close>; inside, every exception of the fetch is caught.
\<close>

definition is_moderation_applied :: "env \<Rightarrow> moderation_type \<Rightarrow> snowflake \<Rightarrow> bool io" where
  "is_moderation_applied E moderation_type moderation_user =
     (if moderation_type \<noteq> ''ban'' then throw AssertionError
      else try_catch
             (bind (call (BansFetch moderation_user) (bans_fetch E moderation_user)) (\<lambda>_. ret True))
             (\<lambda>e. ret False))"

text \<open>
  The object literal \<^verbatim>\<open>moderation\<close> of \<^verbatim>\<open>ban_handler\<close>; \<open>member_name\<close> is the awaited
  \<^verbatim>\<open>(await command.get_member()).displayName\<close>. A duration of \<^verbatim>\<open>Infinity\<close> is stored as
  \<^verbatim>\<open>null\<close>.
\<close>

definition new_moderation ::
  "env \<Rightarrow> text_based_command \<Rightarrow> discord_user \<Rightarrow> string option \<Rightarrow> duration_ms \<Rightarrow> string
     \<Rightarrow> moderation_entry" where
  "new_moderation E command usr rsn duration_ms member_name =
     \<lparr> case_number = - 1,
       user = user_id usr,
       user_name = displayName usr,
       moderator = command_user_id command,
       moderator_name = member_name,
       mtype = ''ban'',
       reason = rsn,
       issued_at = date_now E,
       duration = (case duration_ms of Infinity \<Rightarrow> None | Ms n \<Rightarrow> Some n),
       active = True,
       removed = None,
       expunged = None,
       link = forged_url command \<rparr>"

text \<open>The body of the \<^verbatim>\<open>try\<close> block of \<^verbatim>\<open>ban_handler\<close>.\<close>

definition ban_try ::
  "env \<Rightarrow> text_based_command \<Rightarrow> discord_user \<Rightarrow> string option \<Rightarrow> string option
     \<Rightarrow> (exn + unit) io" where
  "ban_try E command usr duration_string rsn =
     bind (query (is_authorized_mod E usr)) (\<lambda>authorized.
       if authorized then return_promise (reply_with_error E ''Cannot apply moderation to user'')
       else
         bind (is_moderation_applied E ''ban'' (user_id usr)) (\<lambda>applied.
           if applied then return_promise (reply_with_error E ''User is already banned'')
           else
             (case parse_nullable_duration E duration_string of
                None \<Rightarrow> return_promise (reply_with_error E ''Invalid duration'')
              | Some duration_ms \<Rightarrow>
                  bind (query (get_member_displayName E)) (\<lambda>member_name.
                    bind (ret (new_moderation E command usr rsn duration_ms member_name))
                      (\<lambda>moderation.
                      bind (notify_user E usr ''banned'' moderation) (\<lambda>_.
                        bind (register_new_moderation E moderation) (\<lambda>assigned.
                          bind (reply_with_success_action E usr ''banned''
                                  (duration_string = None) (rsn = None) (Some assigned)) (\<lambda>_.
                            ret (Inr ())))))))))"

text \<open>
  \<^verbatim>\<open>ban_handler\<close>: an exception of the block is caught, answered with the generic
  message and then given to \<^verbatim>\<open>critical_error\<close>; a block left by \<^verbatim>\<open>return\<close> settles as the
  returned promise does.
\<close>

definition ban_handler ::
  "env \<Rightarrow> text_based_command \<Rightarrow> discord_user \<Rightarrow> string option \<Rightarrow> string option \<Rightarrow> unit io" where
  "ban_handler E command usr duration_string rsn = (\<lambda>db.
     case ban_try E command usr duration_string rsn db of
       (Inl e, db', t) \<Rightarrow>
         (case bind (reply_with_error E ''Error banning'') (\<lambda>_. critical_error e) db' of
            (r, db'', t') \<Rightarrow> (r, db'', t @ t'))
     | (Inr r, db', t) \<Rightarrow> (r, db', t))"

text \<open>
  The database call of \<^verbatim>\<open>unban_handler\<close>: filter \<^verbatim>\<open>{user, type: "ban", active: true}\<close>,
  update \<^verbatim>\<open>$set: {active: false, removed: ...}\<close>. A failing database changes nothing.
\<close>

definition active_ban_of :: "snowflake \<Rightarrow> moderation_entry \<Rightarrow> bool" where
  "active_ban_of uid m = (user m = uid \<and> mtype m = ''ban'' \<and> active m)"

definition set_removed :: "moderation_edit_info \<Rightarrow> moderation_entry \<Rightarrow> moderation_entry" where
  "set_removed rem m = m\<lparr>active := False, removed := Some rem\<rparr>"

definition moderations_findOneAndUpdate ::
  "env \<Rightarrow> snowflake \<Rightarrow> moderation_edit_info \<Rightarrow> document option io" where
  "moderations_findOneAndUpdate E uid rem = (\<lambda>db.
     case database_outcome E of
       Inl e \<Rightarrow> (Inl e, db, [FindOneAndUpdate uid rem])
     | Inr _ \<Rightarrow>
         (case findOneAndUpdate (active_ban_of uid) (set_removed rem) db of
            (res, db') \<Rightarrow> (Inr res, db', [FindOneAndUpdate uid rem])))"

text \<open>The \<^verbatim>\<open>removed\<close> object that \<^verbatim>\<open>unban_handler\<close> sets.\<close>

definition removed_by ::
  "env \<Rightarrow> text_based_command \<Rightarrow> string \<Rightarrow> string \<Rightarrow> moderation_edit_info" where
  "removed_by E command member_name rsn =
     \<lparr> edit_moderator = command_user_id command,
       edit_moderator_name = member_name,
       edit_reason = Some rsn,
       edit_timestamp = date_now E \<rparr>"

text \<open>The body of the \<^verbatim>\<open>try\<close> block of \<^verbatim>\<open>unban_handler\<close>.\<close>

definition unban_try ::
  "env \<Rightarrow> text_based_command \<Rightarrow> discord_user \<Rightarrow> string \<Rightarrow> unit io" where
  "unban_try E command usr rsn =
     bind (query (get_member_displayName E)) (\<lambda>member_name.
       bind (moderations_findOneAndUpdate E (user_id usr)
               (removed_by E command member_name rsn)) (\<lambda>res.
         (case res of
            None \<Rightarrow> reply_with_error E ''User is not banned''
          | Some doc \<Rightarrow>
              bind (is_moderation_applied E (mtype (snd doc)) (user (snd doc))) (\<lambda>applied.
                if \<not> applied then reply_with_error E ''User is not banned''
                else
                  bind (remove_moderation E doc) (\<lambda>_.
                    bind (call (SleepListRemove (fst doc)) (sleep_list_remove_outcome E)) (\<lambda>_.
                      bind (reply_with_success_action E usr ''unbanned'' False False None) (\<lambda>_.
                        bind (query (users_fetch_outcome E)) (\<lambda>_.
                          call (StaffActionLogSend (case_number (snd doc)))
                            (staff_action_log_send_outcome E)))))))))"

definition unban_handler ::
  "env \<Rightarrow> text_based_command \<Rightarrow> discord_user \<Rightarrow> string \<Rightarrow> unit io" where
  "unban_handler E command usr rsn =
     try_catch (unban_try E command usr rsn)
       (\<lambda>e. bind (reply_with_error E ''Error unbanning'') (\<lambda>_. critical_error e))"

subsection \<open>Reading the outcome of a handler\<close>

definition result :: "(exn + 'a) \<times> moderations \<times> event list \<Rightarrow> exn + 'a" where
  "result x = fst x"

definition final_db :: "(exn + 'a) \<times> moderations \<times> event list \<Rightarrow> moderations" where
  "final_db x = fst (snd x)"

definition events :: "(exn + 'a) \<times> moderations \<times> event list \<Rightarrow> event list" where
  "events x = snd (snd x)"

fun is_reply :: "event \<Rightarrow> bool" where
  "is_reply (ReplyWithError _) = True"
| "is_reply (ReplyWithSuccessAction _ _ _ _ _) = True"
| "is_reply _ = False"

definition replies :: "event list \<Rightarrow> event list" where
  "replies t = filter is_reply t"

fun is_success_reply :: "event \<Rightarrow> bool" where
  "is_success_reply (ReplyWithSuccessAction _ _ _ _ _) = True"
| "is_success_reply _ = False"

fun is_backend_call :: "event \<Rightarrow> bool" where
  "is_backend_call (BansFetch _) = True"
| "is_backend_call (MembersUnban _ _) = True"
| "is_backend_call _ = False"

text \<open>The calls of \<^verbatim>\<open>members.unban\<close>, whatever their arguments.\<close>

fun is_unban :: "event \<Rightarrow> bool" where
  "is_unban (MembersUnban _ _) = True"
| "is_unban _ = False"

fun is_database_update :: "event \<Rightarrow> bool" where
  "is_database_update (FindOneAndUpdate _ _) = True"
| "is_database_update _ = False"

text \<open>The entries handed to \<^verbatim>\<open>register_new_moderation\<close>, and the notified users.\<close>

fun registered :: "event list \<Rightarrow> moderation_entry list" where
  "registered [] = []"
| "registered (RegisterNewModeration m # t) = m # registered t"
| "registered (_ # t) = registered t"

fun notified :: "event list \<Rightarrow> snowflake list" where
  "notified [] = []"
| "notified (NotifyUser u _ _ # t) = u # notified t"
| "notified (_ # t) = notified t"

fun critical_errors :: "event list \<Rightarrow> exn list" where
  "critical_errors [] = []"
| "critical_errors (CriticalError e # t) = e # critical_errors t"
| "critical_errors (_ # t) = critical_errors t"

subsection \<open>A concrete environment\<close>

text \<open>
  Every collaborator succeeds; nobody is a moderator, nobody is banned (the fetch of a
  ban fails); the duration grammar knows two strings.
\<close>

definition example_env :: env where
  "example_env =
     \<lparr> is_authorized_mod = (\<lambda>_. Inr False),
       bans_fetch = (\<lambda>_. Inl (Error ''Unknown Ban'')),
       parse_duration = (\<lambda>s. if s = ''1h'' then Some (Ms 3600000)
                               else if s = ''perm'' then Some Infinity else None),
       get_member_displayName = Inr ''Operator'',
       date_now = 1000,
       notify_user_outcome = Inr (),
       register_new_moderation_outcome = (\<lambda>_. Inr 7),
       reply_with_error_outcome = (\<lambda>_. Inr ()),
       reply_with_success_action_outcome = Inr (),
       database_outcome = Inr (),
       members_unban_outcome = Inr (),
       sleep_list_remove_outcome = Inr (),
       users_fetch_outcome = Inr (),
       staff_action_log_send_outcome = Inr () \<rparr>"

definition example_command :: text_based_command where
  "example_command = \<lparr> command_user_id = ''900'', forged_url = ''https://discord.test/1'' \<rparr>"

definition example_user :: discord_user where
  "example_user = \<lparr> user_id = ''42'', displayName = ''Target'' \<rparr>"

text \<open>An active ban of the example user, as \<^verbatim>\<open>ban_handler\<close> creates it, stored as case 7.\<close>

definition example_entry :: moderation_entry where
  "example_entry =
     (new_moderation example_env example_command example_user (Some ''spam'') (Ms 3600000)
        ''Operator'') \<lparr> case_number := 7 \<rparr>"

definition example_db :: moderations where
  "example_db = [(1, example_entry)]"

section \<open>Properties\<close>

subsection \<open>The paths of \<^verbatim>\<open>ban_handler\<close>\<close>

lemmas io_defs = ret_def throw_def bind_def try_catch_def query_def call_def return_promise_def
  reply_with_error_def reply_with_success_action_def notify_user_def register_new_moderation_def
  critical_error_def

lemmas obs_defs = result_def final_db_def events_def replies_def

lemma is_moderation_applied_ban:
  "is_moderation_applied E ''ban'' u db =
     (Inr (case bans_fetch E u of Inl _ \<Rightarrow> False | Inr _ \<Rightarrow> True), db, [BansFetch u])"
  by (simp add: is_moderation_applied_def io_defs split: sum.splits)

lemma ban_try_authorized:
  "is_authorized_mod E usr = Inr True \<Longrightarrow>
   ban_try E command usr ds rsn db =
     (Inr (reply_with_error_outcome E ''Cannot apply moderation to user''), db,
      [ReplyWithError ''Cannot apply moderation to user''])"
  by (simp add: ban_try_def io_defs)

lemma ban_try_authorized_throws:
  "is_authorized_mod E usr = Inl e \<Longrightarrow> ban_try E command usr ds rsn db = (Inl e, db, [])"
  by (simp add: ban_try_def io_defs)

lemma ban_try_banned:
  "is_authorized_mod E usr = Inr False \<Longrightarrow> bans_fetch E (user_id usr) = Inr x \<Longrightarrow>
   ban_try E command usr ds rsn db =
     (Inr (reply_with_error_outcome E ''User is already banned''), db,
      [BansFetch (user_id usr), ReplyWithError ''User is already banned''])"
  by (simp add: ban_try_def is_moderation_applied_ban io_defs)

lemma ban_try_invalid:
  "is_authorized_mod E usr = Inr False \<Longrightarrow> bans_fetch E (user_id usr) = Inl x \<Longrightarrow>
   parse_nullable_duration E ds = None \<Longrightarrow>
   ban_try E command usr ds rsn db =
     (Inr (reply_with_error_outcome E ''Invalid duration''), db,
      [BansFetch (user_id usr), ReplyWithError ''Invalid duration''])"
  by (simp add: ban_try_def is_moderation_applied_ban io_defs)

lemma ban_try_member_throws:
  "is_authorized_mod E usr = Inr False \<Longrightarrow> bans_fetch E (user_id usr) = Inl x \<Longrightarrow>
   parse_nullable_duration E ds = Some d \<Longrightarrow> get_member_displayName E = Inl e \<Longrightarrow>
   ban_try E command usr ds rsn db = (Inl e, db, [BansFetch (user_id usr)])"
  by (simp add: ban_try_def is_moderation_applied_ban io_defs)

lemma ban_try_proceeds:
  "is_authorized_mod E usr = Inr False \<Longrightarrow> bans_fetch E (user_id usr) = Inl x \<Longrightarrow>
   parse_nullable_duration E ds = Some d \<Longrightarrow> get_member_displayName E = Inr name \<Longrightarrow>
   m = new_moderation E command usr rsn d name \<Longrightarrow>
   ban_try E command usr ds rsn db =
     (case notify_user_outcome E of
        Inl e \<Rightarrow> (Inl e, db, [BansFetch (user_id usr), NotifyUser (user_id usr) ''banned'' m])
      | Inr _ \<Rightarrow>
         (case register_new_moderation_outcome E m of
            Inl e \<Rightarrow> (Inl e, db, [BansFetch (user_id usr), NotifyUser (user_id usr) ''banned'' m,
                                  RegisterNewModeration m])
          | Inr n \<Rightarrow>
             (case reply_with_success_action_outcome E of
                Inl e \<Rightarrow> Inl e
              | Inr _ \<Rightarrow> Inr (Inr ()),
              db,
              [BansFetch (user_id usr), NotifyUser (user_id usr) ''banned'' m,
               RegisterNewModeration m,
               ReplyWithSuccessAction (user_id usr) ''banned'' (ds = None) (rsn = None) (Some n)])))"
  by (simp add: ban_try_def is_moderation_applied_ban io_defs split: sum.splits)

lemma ban_handler_return:
  "ban_try E command usr ds rsn db = (Inr r, db', t) \<Longrightarrow>
   ban_handler E command usr ds rsn db = (r, db', t)"
  by (simp add: ban_handler_def)

lemma ban_handler_catch:
  "ban_try E command usr ds rsn db = (Inl e, db', t) \<Longrightarrow>
   ban_handler E command usr ds rsn db =
     (case reply_with_error_outcome E ''Error banning'' of
        Inl e' \<Rightarrow> (Inl e', db', t @ [ReplyWithError ''Error banning''])
      | Inr _ \<Rightarrow> (Inr (), db', t @ [ReplyWithError ''Error banning'', CriticalError e]))"
  by (simp add: ban_handler_def io_defs split: sum.splits)

subsection \<open>Issuing a ban\<close>

text \<open>
  Claim C1. When the backend reports the target as banned (the fetch of the ban
  resolves), \<^verbatim>\<open>ban_handler\<close> registers no record, notifies nobody and leaves the
  collection as it is, whatever the other collaborators do; and when the target is not
  an authorized moderator (as for a target banned by a first \<^verbatim>\<open>ban_handler\<close> call), the
  handler makes the fetch and the error reply ``User is already banned'' and nothing else.
\<close>

theorem ban_already_applied:
  assumes banned: "bans_fetch E (user_id usr) = Inr x"
  shows "registered (events (ban_handler E command usr ds rsn db)) = []
       \<and> notified (events (ban_handler E command usr ds rsn db)) = []
       \<and> final_db (ban_handler E command usr ds rsn db) = db
       \<and> (is_authorized_mod E usr = Inr False \<longrightarrow>
            ban_handler E command usr ds rsn db =
              (reply_with_error_outcome E ''User is already banned'', db,
               [BansFetch (user_id usr), ReplyWithError ''User is already banned'']))"
proof (cases "is_authorized_mod E usr")
  case (Inl e)
  then show ?thesis
    by (simp add: ban_handler_catch [OF ban_try_authorized_throws] obs_defs split: sum.splits)
next
  case (Inr b)
  show ?thesis
  proof (cases b)
    case True
    with Inr show ?thesis
      by (simp add: ban_handler_return [OF ban_try_authorized] obs_defs)
  next
    case False
    with Inr banned show ?thesis
      by (simp add: ban_handler_return [OF ban_try_banned] obs_defs)
  qed
qed

theorem ban_already_applied_witness:
  "ban_handler (example_env\<lparr>bans_fetch := \<lambda>_. Inr ()\<rparr>) example_command example_user
      (Some ''1h'') None example_db =
     (Inr (), example_db, [BansFetch ''42'', ReplyWithError ''User is already banned''])
   \<and> registered (events (ban_handler (example_env\<lparr>bans_fetch := \<lambda>_. Inr ()\<rparr>) example_command
        example_user (Some ''1h'') None example_db)) = []"
  using ban_already_applied [of "example_env\<lparr>bans_fetch := \<lambda>_. Inr ()\<rparr>" example_user "()"
      example_command "Some ''1h''" None example_db]
  by (simp add: example_env_def example_user_def obs_defs)

text \<open>
  Claim C5 says that a malformed duration is rejected before the duplicate check. The
  handler checks \<^verbatim>\<open>is_moderation_applied\<close> first and parses the duration after it: for a
  banned target and the malformed duration ``soon'' the reply is ``User is already
  banned'', and ``Invalid duration'' is never replied.
\<close>

theorem ban_duplicate_check_precedes_parse_counterexample:
  "parse_nullable_duration (example_env\<lparr>bans_fetch := \<lambda>_. Inr ()\<rparr>) (Some ''soon'') = None
   \<and> ban_handler (example_env\<lparr>bans_fetch := \<lambda>_. Inr ()\<rparr>) example_command example_user
        (Some ''soon'') None example_db =
       (Inr (), example_db, [BansFetch ''42'', ReplyWithError ''User is already banned''])
   \<and> ReplyWithError ''Invalid duration'' \<notin>
        set (events (ban_handler (example_env\<lparr>bans_fetch := \<lambda>_. Inr ()\<rparr>) example_command
               example_user (Some ''soon'') None example_db))"
  by (simp add: ban_handler_def ban_try_def is_moderation_applied_def parse_nullable_duration_def
      io_defs obs_defs example_env_def example_user_def)

text \<open>
  Claim C5 as amended. The duplicate check precedes the duration parse: for a target
  that is not an authorized moderator and a duration that the parser rejects (it returns
  \<^verbatim>\<open>null\<close>), the reply is ``User is already banned'' when the backend reports the target
  as banned, and ``Invalid duration'' only when it does not.
\<close>

theorem ban_duplicate_check_precedes_parse:
  assumes "is_authorized_mod E usr = Inr False"
    and "parse_nullable_duration E ds = None"
  shows "ban_handler E command usr ds rsn db =
           (case bans_fetch E (user_id usr) of
              Inr _ \<Rightarrow> (reply_with_error_outcome E ''User is already banned'', db,
                        [BansFetch (user_id usr), ReplyWithError ''User is already banned''])
            | Inl _ \<Rightarrow> (reply_with_error_outcome E ''Invalid duration'', db,
                        [BansFetch (user_id usr), ReplyWithError ''Invalid duration'']))"
proof (cases "bans_fetch E (user_id usr)")
  case (Inl e)
  with assms show ?thesis
    by (simp add: ban_handler_return [OF ban_try_invalid])
next
  case (Inr x)
  with assms(1) show ?thesis
    by (simp add: ban_handler_return [OF ban_try_banned])
qed

text \<open>
  The two orders of the amended claim, on the malformed duration ``soon'': a target that
  is not banned gets ``Invalid duration'', a banned one ``User is already banned''.
\<close>

theorem ban_duplicate_check_precedes_parse_witness:
  "ban_handler example_env example_command example_user (Some ''soon'') None example_db =
     (Inr (), example_db, [BansFetch ''42'', ReplyWithError ''Invalid duration''])
   \<and> ban_handler (example_env\<lparr>bans_fetch := \<lambda>_. Inr ()\<rparr>) example_command example_user
       (Some ''soon'') (Some ''spam'') example_db =
     (Inr (), example_db, [BansFetch ''42'', ReplyWithError ''User is already banned''])"
  using ban_duplicate_check_precedes_parse [of example_env example_user "Some ''soon''"
      example_command None example_db]
    ban_duplicate_check_precedes_parse [of "example_env\<lparr>bans_fetch := \<lambda>_. Inr ()\<rparr>"
      example_user "Some ''soon''" example_command "Some ''spam''" example_db]
  by (simp add: example_env_def example_user_def parse_nullable_duration_def)

text \<open>
  Claim C6 says, in its second part, that every malformed duration string is rejected
  with ``Invalid duration''. The handler reaches the parse only after the authorization
  and the duplicate check: for the malformed duration ``1 fortnight'', a banned target is
  answered ``User is already banned'' and an authorized moderator ``Cannot apply
  moderation to user''; ``Invalid duration'' is replied in neither run.
\<close>

theorem ban_duration_optional_counterexample:
  "parse_nullable_duration example_env (Some ''1 fortnight'') = None
   \<and> ban_handler (example_env\<lparr>bans_fetch := \<lambda>_. Inr ()\<rparr>) example_command example_user
        (Some ''1 fortnight'') (Some ''spam'') example_db =
       (Inr (), example_db, [BansFetch ''42'', ReplyWithError ''User is already banned''])
   \<and> ban_handler (example_env\<lparr>is_authorized_mod := \<lambda>_. Inr True\<rparr>) example_command example_user
        (Some ''1 fortnight'') (Some ''spam'') example_db =
       (Inr (), example_db, [ReplyWithError ''Cannot apply moderation to user''])
   \<and> ReplyWithError ''Invalid duration'' \<notin>
        set (events (ban_handler (example_env\<lparr>bans_fetch := \<lambda>_. Inr ()\<rparr>) example_command
               example_user (Some ''1 fortnight'') (Some ''spam'') example_db))
   \<and> ReplyWithError ''Invalid duration'' \<notin>
        set (events (ban_handler (example_env\<lparr>is_authorized_mod := \<lambda>_. Inr True\<rparr>)
               example_command example_user (Some ''1 fortnight'') (Some ''spam'') example_db))"
  by (simp add: ban_handler_def ban_try_def is_moderation_applied_def parse_nullable_duration_def
      io_defs obs_defs example_env_def example_user_def)

text \<open>
  Claim C6 as amended. For a ban that passes the authorization and the duplicate check:
  the parse of an absent duration string is the no-expiry default; the handler never
  replies ``Invalid duration'' then, every record it registers has the duration
  \<^verbatim>\<open>null\<close>, and when the operator's member data is fetched and the target is notified,
  it registers exactly the record \<open>new_moderation\<close> with duration \<^verbatim>\<open>null\<close>. For a
  malformed duration string on such a request, one that passes both checks, the handler
  replies ``Invalid duration'' and does nothing else: no notification and no record.
\<close>

theorem ban_duration_optional:
  assumes not_mod: "is_authorized_mod E usr = Inr False"
    and not_banned: "bans_fetch E (user_id usr) = Inl x"
  shows "parse_nullable_duration E None = Some Infinity
       \<and> ReplyWithError ''Invalid duration'' \<notin>
            set (events (ban_handler E command usr None rsn db))
       \<and> list_all (\<lambda>m. duration m = None)
            (registered (events (ban_handler E command usr None rsn db)))
       \<and> (get_member_displayName E = Inr name \<and> notify_user_outcome E = Inr () \<longrightarrow>
            registered (events (ban_handler E command usr None rsn db)) =
              [new_moderation E command usr rsn Infinity name]
            \<and> duration (new_moderation E command usr rsn Infinity name) = None)
       \<and> (parse_duration E s = None \<longrightarrow>
            ban_handler E command usr (Some s) rsn db =
              (reply_with_error_outcome E ''Invalid duration'', db,
               [BansFetch (user_id usr), ReplyWithError ''Invalid duration'']))"
proof -
  have p: "parse_nullable_duration E None = Some Infinity"
    by (simp add: parse_nullable_duration_def)
  have d: "duration (new_moderation E command usr rsn Infinity n) = None" for n
    by (simp add: new_moderation_def)
  have null_case:
    "ReplyWithError ''Invalid duration'' \<notin> set (events (ban_handler E command usr None rsn db))
     \<and> list_all (\<lambda>m. duration m = None)
          (registered (events (ban_handler E command usr None rsn db)))
     \<and> (get_member_displayName E = Inr name \<and> notify_user_outcome E = Inr () \<longrightarrow>
          registered (events (ban_handler E command usr None rsn db)) =
            [new_moderation E command usr rsn Infinity name])"
  proof (cases "get_member_displayName E")
    case (Inl e)
    show ?thesis
      by (simp add: ban_handler_catch [OF ban_try_member_throws [OF not_mod not_banned p Inl]]
          obs_defs Inl split: sum.splits)
  next
    case (Inr n)
    note t = ban_try_proceeds [OF not_mod not_banned p Inr refl, of command rsn db]
    show ?thesis
    proof (cases "notify_user_outcome E")
      case (Inl e)
      with t have "ban_try E command usr None rsn db =
          (Inl e, db, [BansFetch (user_id usr),
             NotifyUser (user_id usr) ''banned'' (new_moderation E command usr rsn Infinity n)])"
        by simp
      from ban_handler_catch [OF this] Inl show ?thesis
        by (simp add: obs_defs split: sum.splits)
    next
      case notified: (Inr u)
      show ?thesis
      proof (cases "register_new_moderation_outcome E (new_moderation E command usr rsn Infinity n)")
        case (Inl e)
        with t notified have "ban_try E command usr None rsn db =
          (Inl e, db, [BansFetch (user_id usr),
             NotifyUser (user_id usr) ''banned'' (new_moderation E command usr rsn Infinity n),
             RegisterNewModeration (new_moderation E command usr rsn Infinity n)])"
          by simp
        from ban_handler_catch [OF this] Inr show ?thesis
          by (simp add: obs_defs d split: sum.splits)
      next
        case registered: (Inr k)
        show ?thesis
        proof (cases "reply_with_success_action_outcome E")
          case (Inl e)
          with t notified registered have "ban_try E command usr None rsn db =
            (Inl e, db, [BansFetch (user_id usr),
               NotifyUser (user_id usr) ''banned'' (new_moderation E command usr rsn Infinity n),
               RegisterNewModeration (new_moderation E command usr rsn Infinity n),
               ReplyWithSuccessAction (user_id usr) ''banned'' True (rsn = None) (Some k)])"
            by simp
          from ban_handler_catch [OF this] Inr show ?thesis
            by (simp add: obs_defs d split: sum.splits)
        next
          case (Inr v)
          with t notified registered have "ban_try E command usr None rsn db =
            (Inr (Inr ()), db, [BansFetch (user_id usr),
               NotifyUser (user_id usr) ''banned'' (new_moderation E command usr rsn Infinity n),
               RegisterNewModeration (new_moderation E command usr rsn Infinity n),
               ReplyWithSuccessAction (user_id usr) ''banned'' True (rsn = None) (Some k)])"
            by simp
          from ban_handler_return [OF this] \<open>get_member_displayName E = Inr n\<close> show ?thesis
            by (simp add: obs_defs d)
        qed
      qed
    qed
  qed
  have malformed: "parse_duration E s = None \<longrightarrow>
      ban_handler E command usr (Some s) rsn db =
        (reply_with_error_outcome E ''Invalid duration'', db,
         [BansFetch (user_id usr), ReplyWithError ''Invalid duration''])"
  proof
    assume "parse_duration E s = None"
    then have "parse_nullable_duration E (Some s) = None"
      by (simp add: parse_nullable_duration_def)
    from ban_handler_return [OF ban_try_invalid [OF not_mod not_banned this]]
    show "ban_handler E command usr (Some s) rsn db =
        (reply_with_error_outcome E ''Invalid duration'', db,
         [BansFetch (user_id usr), ReplyWithError ''Invalid duration''])" .
  qed
  from p d null_case malformed show ?thesis by blast
qed

theorem ban_duration_optional_witness:
  "registered (events (ban_handler example_env example_command example_user None None example_db)) =
     [new_moderation example_env example_command example_user None Infinity ''Operator'']
   \<and> duration (new_moderation example_env example_command example_user None Infinity ''Operator'') = None
   \<and> ban_handler example_env example_command example_user (Some ''1 fortnight'') None example_db =
       (Inr (), example_db, [BansFetch ''42'', ReplyWithError ''Invalid duration''])"
  using ban_duration_optional [of example_env example_user "Error ''Unknown Ban''" example_command
      None example_db "''Operator''" "''1 fortnight''"]
  by (simp add: example_env_def example_user_def)

subsection \<open>The existence check\<close>

text \<open>
  Claim C9. Whatever exception the fetch of the ban throws, \<^verbatim>\<open>is_moderation_applied\<close>
  (called for a ban, as the assertion demands) returns \<^verbatim>\<open>false\<close>; it never throws.
\<close>

theorem is_moderation_applied_catches_all:
  "(bans_fetch E u = Inl e \<longrightarrow>
      is_moderation_applied E ''ban'' u db = (Inr False, db, [BansFetch u]))
   \<and> (\<forall>x. result (is_moderation_applied E ''ban'' u db) \<noteq> Inl x)"
  by (simp add: is_moderation_applied_ban obs_defs)

theorem is_moderation_applied_catches_all_witness:
  "is_moderation_applied example_env ''ban'' ''42'' example_db =
     (Inr False, example_db, [BansFetch ''42''])"
  using is_moderation_applied_catches_all [of example_env "''42''" "Error ''Unknown Ban''" example_db]
  by (simp add: example_env_def)

subsection \<open>The conditional update\<close>

lemma findOneAndUpdate_no_match:
  "list_all (\<lambda>d. \<not> flt (snd d)) db \<Longrightarrow> findOneAndUpdate flt upd db = (None, db)"
  by (induction db) auto

lemma findOneAndUpdate_match:
  "list_all (\<lambda>d. \<not> flt (snd d)) pre \<Longrightarrow> flt m \<Longrightarrow>
   findOneAndUpdate flt upd (pre @ (oid, m) # post) =
     (Some (oid, upd m), pre @ (oid, upd m) # post)"
  by (induction pre) auto

lemma findOneAndUpdate_None:
  "findOneAndUpdate flt upd db = (None, db') \<Longrightarrow> db' = db \<and> list_all (\<lambda>d. \<not> flt (snd d)) db"
  by (induction db arbitrary: db') (auto split: if_splits prod.splits)

lemma findOneAndUpdate_Some:
  "findOneAndUpdate flt upd db = (Some doc, db') \<Longrightarrow>
   \<exists>pre m post. db = pre @ (fst doc, m) # post \<and> list_all (\<lambda>d. \<not> flt (snd d)) pre \<and> flt m
      \<and> snd doc = upd m \<and> db' = pre @ doc # post"
proof (induction db arbitrary: db')
  case Nil
  then show ?case by simp
next
  case (Cons d ds)
  show ?case
  proof (cases "flt (snd d)")
    case True
    with Cons.prems have "doc = (fst d, upd (snd d))" "db' = doc # ds" by auto
    with True have "d # ds = [] @ (fst doc, snd d) # ds \<and> list_all (\<lambda>d. \<not> flt (snd d)) []
        \<and> flt (snd d) \<and> snd doc = upd (snd d) \<and> db' = [] @ doc # ds"
      by simp
    then show ?thesis by blast
  next
    case False
    with Cons.prems obtain ds' where r: "findOneAndUpdate flt upd ds = (Some doc, ds')"
      and db': "db' = d # ds'"
      by (auto split: prod.splits)
    from Cons.IH [OF r] obtain pre m post where
      "ds = pre @ (fst doc, m) # post" "list_all (\<lambda>d. \<not> flt (snd d)) pre" "flt m"
      "snd doc = upd m" "ds' = pre @ doc # post"
      by blast
    with False db' have "d # ds = (d # pre) @ (fst doc, m) # post
        \<and> list_all (\<lambda>d. \<not> flt (snd d)) (d # pre) \<and> flt m \<and> snd doc = upd m
        \<and> db' = (d # pre) @ doc # post"
      by simp
    then show ?thesis by blast
  qed
qed

subsection \<open>The paths of \<^verbatim>\<open>unban_handler\<close>\<close>

lemma unban_try_member_throws:
  "get_member_displayName E = Inl e \<Longrightarrow> unban_try E command usr rsn db = (Inl e, db, [])"
  by (simp add: unban_try_def io_defs)

lemma unban_try_database_throws:
  "get_member_displayName E = Inr name \<Longrightarrow> database_outcome E = Inl e \<Longrightarrow>
   unban_try E command usr rsn db =
     (Inl e, db, [FindOneAndUpdate (user_id usr) (removed_by E command name rsn)])"
  by (simp add: unban_try_def moderations_findOneAndUpdate_def io_defs)

lemma unban_try_no_record:
  "get_member_displayName E = Inr name \<Longrightarrow> database_outcome E = Inr x \<Longrightarrow>
   list_all (\<lambda>d. \<not> active_ban_of (user_id usr) (snd d)) db \<Longrightarrow>
   unban_try E command usr rsn db =
     (reply_with_error_outcome E ''User is not banned'', db,
      [FindOneAndUpdate (user_id usr) (removed_by E command name rsn),
       ReplyWithError ''User is not banned''])"
  by (simp add: unban_try_def moderations_findOneAndUpdate_def findOneAndUpdate_no_match io_defs)

lemma unban_try_not_applied:
  "get_member_displayName E = Inr name \<Longrightarrow> database_outcome E = Inr x \<Longrightarrow>
   list_all (\<lambda>d. \<not> active_ban_of (user_id usr) (snd d)) pre \<Longrightarrow>
   active_ban_of (user_id usr) m \<Longrightarrow>
   bans_fetch E (user_id usr) = Inl e \<Longrightarrow>
   unban_try E command usr rsn (pre @ (oid, m) # post) =
     (reply_with_error_outcome E ''User is not banned'',
      pre @ (oid, set_removed (removed_by E command name rsn) m) # post,
      [FindOneAndUpdate (user_id usr) (removed_by E command name rsn),
       BansFetch (user_id usr),
       ReplyWithError ''User is not banned''])"
  by (simp add: unban_try_def moderations_findOneAndUpdate_def findOneAndUpdate_match
      is_moderation_applied_def io_defs)
    (simp add: active_ban_of_def set_removed_def io_defs)

lemma unban_try_applied:
  "get_member_displayName E = Inr name \<Longrightarrow> database_outcome E = Inr x \<Longrightarrow>
   list_all (\<lambda>d. \<not> active_ban_of (user_id usr) (snd d)) pre \<Longrightarrow>
   active_ban_of (user_id usr) m \<Longrightarrow>
   bans_fetch E (user_id usr) = Inr y \<Longrightarrow>
   unban_try E command usr rsn (pre @ (oid, m) # post) =
     (case members_unban_outcome E of
        Inl e \<Rightarrow> Inl e
      | Inr _ \<Rightarrow>
          (case sleep_list_remove_outcome E of
             Inl e \<Rightarrow> Inl e
           | Inr _ \<Rightarrow>
               (case reply_with_success_action_outcome E of
                  Inl e \<Rightarrow> Inl e
                | Inr _ \<Rightarrow>
                    (case users_fetch_outcome E of
                       Inl e \<Rightarrow> Inl e
                     | Inr _ \<Rightarrow> staff_action_log_send_outcome E))),
      pre @ (oid, set_removed (removed_by E command name rsn) m) # post,
      [FindOneAndUpdate (user_id usr) (removed_by E command name rsn),
       BansFetch (user_id usr),
       LogInfo (''Unbanning '' @ user_name m),
       MembersUnban (user_id usr) (Some rsn)] @
      (case members_unban_outcome E of
         Inl e \<Rightarrow> []
       | Inr _ \<Rightarrow>
           SleepListRemove oid #
           (case sleep_list_remove_outcome E of
              Inl e \<Rightarrow> []
            | Inr _ \<Rightarrow>
                ReplyWithSuccessAction (user_id usr) ''unbanned'' False False None #
                (case reply_with_success_action_outcome E of
                   Inl e \<Rightarrow> []
                 | Inr _ \<Rightarrow>
                     (case users_fetch_outcome E of
                        Inl e \<Rightarrow> []
                      | Inr _ \<Rightarrow> [StaffActionLogSend (case_number m)])))))"
  by (simp add: unban_try_def moderations_findOneAndUpdate_def findOneAndUpdate_match
      is_moderation_applied_def remove_moderation_def io_defs)
    (simp add: active_ban_of_def set_removed_def removed_by_def remove_moderation_def io_defs
      split: sum.splits)

lemma unban_handler_of_try:
  "unban_handler E command usr rsn db =
     (case unban_try E command usr rsn db of
        (Inl e, db', t) \<Rightarrow>
          (case reply_with_error_outcome E ''Error unbanning'' of
             Inl e' \<Rightarrow> (Inl e', db', t @ [ReplyWithError ''Error unbanning''])
           | Inr _ \<Rightarrow> (Inr (), db', t @ [ReplyWithError ''Error unbanning'', CriticalError e]))
      | (Inr x, db', t) \<Rightarrow> (Inr x, db', t))"
  by (simp add: unban_handler_def io_defs split: sum.splits prod.splits)

text \<open>
  Claim C3. When no document of the collection is an active ban of the target,
  \<^verbatim>\<open>unban_handler\<close> makes no backend call at all (no fetch of the ban, no unban), sends no
  success reply and leaves the collection as it is, whatever the collaborators do; and
  when the operator's member data is fetched and the database answers, the handler
  makes the database call and then the error reply ``User is not banned'', and these are
  all its calls when that reply is delivered.
\<close>

theorem unban_no_active_record:
  assumes none: "list_all (\<lambda>d. \<not> active_ban_of (user_id usr) (snd d)) db"
  shows "filter is_backend_call (events (unban_handler E command usr rsn db)) = []
       \<and> filter is_success_reply (events (unban_handler E command usr rsn db)) = []
       \<and> final_db (unban_handler E command usr rsn db) = db
       \<and> (get_member_displayName E = Inr name \<and> database_outcome E = Inr () \<longrightarrow>
            take 2 (events (unban_handler E command usr rsn db)) =
              [FindOneAndUpdate (user_id usr) (removed_by E command name rsn),
               ReplyWithError ''User is not banned'']
            \<and> (reply_with_error_outcome E ''User is not banned'' = Inr () \<longrightarrow>
                 unban_handler E command usr rsn db =
                   (Inr (), db,
                    [FindOneAndUpdate (user_id usr) (removed_by E command name rsn),
                     ReplyWithError ''User is not banned''])))"
proof (cases "get_member_displayName E")
  case (Inl e)
  then show ?thesis
    by (simp add: unban_handler_of_try unban_try_member_throws obs_defs split: sum.splits)
next
  case member: (Inr n)
  show ?thesis
  proof (cases "database_outcome E")
    case (Inl e)
    with member show ?thesis
      by (simp add: unban_handler_of_try unban_try_database_throws obs_defs split: sum.splits)
  next
    case (Inr x)
    with member none show ?thesis
      by (simp add: unban_handler_of_try unban_try_no_record obs_defs split: sum.splits)
  qed
qed

text \<open>
  The example collection holds an active ban of user 42 only: an unban of user 43 is the
  database call and the reply, and the collection is as before.
\<close>

theorem unban_no_active_record_witness:
  "unban_handler example_env example_command (example_user\<lparr>user_id := ''43''\<rparr>) ''appeal''
       example_db =
     (Inr (), example_db,
      [FindOneAndUpdate ''43'' (removed_by example_env example_command ''Operator'' ''appeal''),
       ReplyWithError ''User is not banned''])"
  using unban_no_active_record [of "example_user\<lparr>user_id := ''43''\<rparr>" example_db example_env
      example_command "''appeal''" "''Operator''"]
  by (simp add: example_env_def example_user_def example_db_def example_entry_def
      new_moderation_def active_ban_of_def)

text \<open>
  Claim C4. When the conditional update finds an active ban of the target and flips it,
  and the backend then reports no ban (the fetch fails), the handler answers with the
  error reply ``User is not banned'' right after the fetch; the one database call it has
  made is not undone, so the document stays inactive with its \<^verbatim>\<open>removed\<close> object set.
  The whole run is given: the database call, the fetch and the reply, followed only by
  the generic reply and \<^verbatim>\<open>critical_error\<close> when the reply fails. So the handler makes no
  call of \<^verbatim>\<open>members.unban\<close> at all, its only backend call is the fetch, and it sends no
  success reply.
\<close>

theorem unban_not_actually_applied:
  assumes member: "get_member_displayName E = Inr name"
    and database: "database_outcome E = Inr ()"
    and first_match: "list_all (\<lambda>d. \<not> active_ban_of (user_id usr) (snd d)) pre"
    and found: "active_ban_of (user_id usr) m"
    and backend: "bans_fetch E (user_id usr) = Inl e"
  shows "final_db (unban_handler E command usr rsn (pre @ (oid, m) # post)) =
           pre @ (oid, m\<lparr>active := False,
                         removed := Some \<lparr> edit_moderator = command_user_id command,
                                          edit_moderator_name = name,
                                          edit_reason = Some rsn,
                                          edit_timestamp = date_now E \<rparr>\<rparr>) # post
       \<and> take 3 (events (unban_handler E command usr rsn (pre @ (oid, m) # post))) =
           [FindOneAndUpdate (user_id usr) (removed_by E command name rsn),
            BansFetch (user_id usr),
            ReplyWithError ''User is not banned'']
       \<and> filter is_database_update (events (unban_handler E command usr rsn (pre @ (oid, m) # post)))
           = [FindOneAndUpdate (user_id usr) (removed_by E command name rsn)]
       \<and> MembersUnban (user_id usr) (Some rsn) \<notin>
           set (events (unban_handler E command usr rsn (pre @ (oid, m) # post)))
       \<and> filter is_success_reply (events (unban_handler E command usr rsn (pre @ (oid, m) # post)))
           = []
       \<and> filter is_unban (events (unban_handler E command usr rsn (pre @ (oid, m) # post))) = []
       \<and> filter is_backend_call (events (unban_handler E command usr rsn (pre @ (oid, m) # post)))
           = [BansFetch (user_id usr)]
       \<and> unban_handler E command usr rsn (pre @ (oid, m) # post) =
           (case reply_with_error_outcome E ''User is not banned'' of
              Inr _ \<Rightarrow>
                (Inr (),
                 pre @ (oid, set_removed (removed_by E command name rsn) m) # post,
                 [FindOneAndUpdate (user_id usr) (removed_by E command name rsn),
                  BansFetch (user_id usr),
                  ReplyWithError ''User is not banned''])
            | Inl e1 \<Rightarrow>
                (case reply_with_error_outcome E ''Error unbanning'' of
                   Inr _ \<Rightarrow>
                     (Inr (),
                      pre @ (oid, set_removed (removed_by E command name rsn) m) # post,
                      [FindOneAndUpdate (user_id usr) (removed_by E command name rsn),
                       BansFetch (user_id usr),
                       ReplyWithError ''User is not banned'',
                       ReplyWithError ''Error unbanning'',
                       CriticalError e1])
                 | Inl e2 \<Rightarrow>
                     (Inl e2,
                      pre @ (oid, set_removed (removed_by E command name rsn) m) # post,
                      [FindOneAndUpdate (user_id usr) (removed_by E command name rsn),
                       BansFetch (user_id usr),
                       ReplyWithError ''User is not banned'',
                       ReplyWithError ''Error unbanning''])))"
  using assms
  by (simp add: unban_handler_of_try unban_try_not_applied obs_defs set_removed_def removed_by_def
      split: sum.splits)

text \<open>The example collection with a backend that knows no ban of the target.\<close>

theorem unban_not_actually_applied_witness:
  "final_db (unban_handler example_env example_command example_user ''appeal'' example_db) =
     [(1, example_entry\<lparr>active := False,
            removed := Some \<lparr> edit_moderator = ''900'', edit_moderator_name = ''Operator'',
                             edit_reason = Some ''appeal'', edit_timestamp = 1000 \<rparr>\<rparr>)]
   \<and> take 3 (events (unban_handler example_env example_command example_user ''appeal'' example_db)) =
       [FindOneAndUpdate ''42'' (removed_by example_env example_command ''Operator'' ''appeal''),
        BansFetch ''42'', ReplyWithError ''User is not banned'']
   \<and> MembersUnban ''42'' (Some ''appeal'') \<notin>
       set (events (unban_handler example_env example_command example_user ''appeal'' example_db))
   \<and> filter is_unban
       (events (unban_handler example_env example_command example_user ''appeal'' example_db)) = []
   \<and> filter is_backend_call
       (events (unban_handler example_env example_command example_user ''appeal'' example_db)) =
       [BansFetch ''42'']"
proof -
  have member: "get_member_displayName example_env = Inr ''Operator''"
    and database: "database_outcome example_env = Inr ()"
    and backend: "bans_fetch example_env (user_id example_user) = Inl (Error ''Unknown Ban'')"
    and uid: "user_id example_user = ''42''"
    and cmd: "command_user_id example_command = ''900''"
    and now: "date_now example_env = 1000"
    by (simp_all add: example_env_def example_user_def example_command_def)
  have found: "active_ban_of (user_id example_user) example_entry"
    by (simp add: active_ban_of_def example_entry_def new_moderation_def)
  have pre: "list_all (\<lambda>d. \<not> active_ban_of (user_id example_user) (snd d)) []"
    by simp
  note run = unban_not_actually_applied [OF member database pre found backend,
      of example_command "''appeal''" 1 "[]", unfolded uid cmd now append_Nil]
  from run show ?thesis
    unfolding example_db_def by (elim conjE) (intro conjI, assumption+)
qed

text \<open>
  Claim C2. Whenever \<^verbatim>\<open>unban_handler\<close> gets as far as its success reply, the collection
  held an active ban of the target, and the handler has changed exactly that document
  (the first such one), by its single \<^verbatim>\<open>findOneAndUpdate\<close> call with the filter on
  \<^verbatim>\<open>active: true\<close>: the document is now inactive and its \<^verbatim>\<open>removed\<close> object holds the
  operator, the operator's name, the caller's reason and the time of the call. The
  backend was asked to unban with that reason, and the document's entry was removed from
  the sleep list.
\<close>

theorem unban_success_updates_record:
  assumes run: "unban_handler E command usr rsn db = (r, db', t)"
    and success: "ReplyWithSuccessAction (user_id usr) ''unbanned'' False False None \<in> set t"
  shows "\<exists>name pre oid m post.
      get_member_displayName E = Inr name
    \<and> db = pre @ (oid, m) # post
    \<and> list_all (\<lambda>d. \<not> active_ban_of (user_id usr) (snd d)) pre
    \<and> active_ban_of (user_id usr) m
    \<and> db' = pre @ (oid, m\<lparr>active := False,
                          removed := Some \<lparr> edit_moderator = command_user_id command,
                                           edit_moderator_name = name,
                                           edit_reason = Some rsn,
                                           edit_timestamp = date_now E \<rparr>\<rparr>) # post
    \<and> filter is_database_update t =
        [FindOneAndUpdate (user_id usr) (removed_by E command name rsn)]
    \<and> MembersUnban (user_id usr) (Some rsn) \<in> set t
    \<and> SleepListRemove oid \<in> set t"
proof (cases "get_member_displayName E")
  case (Inl e)
  with run success show ?thesis
    by (auto simp add: unban_handler_of_try unban_try_member_throws split: sum.splits)
next
  case member: (Inr name)
  show ?thesis
  proof (cases "database_outcome E")
    case (Inl e)
    with member run success show ?thesis
      by (auto simp add: unban_handler_of_try unban_try_database_throws split: sum.splits)
  next
    case database: (Inr x)
    obtain res db2 where
      f: "findOneAndUpdate (active_ban_of (user_id usr))
            (set_removed (removed_by E command name rsn)) db = (res, db2)"
      by (cases "findOneAndUpdate (active_ban_of (user_id usr))
            (set_removed (removed_by E command name rsn)) db")
    show ?thesis
    proof (cases res)
      case None
      with f have "list_all (\<lambda>d. \<not> active_ban_of (user_id usr) (snd d)) db"
        by (simp add: findOneAndUpdate_None)
      with member database run success show ?thesis
        by (auto simp add: unban_handler_of_try unban_try_no_record split: sum.splits)
    next
      case (Some doc)
      with f obtain pre m post where
        db: "db = pre @ (fst doc, m) # post"
        and pre: "list_all (\<lambda>d. \<not> active_ban_of (user_id usr) (snd d)) pre"
        and m: "active_ban_of (user_id usr) m"
        using findOneAndUpdate_Some by blast
      show ?thesis
      proof (cases "bans_fetch E (user_id usr)")
        case (Inl e)
        from run success show ?thesis
          unfolding db
          by (auto simp add: unban_handler_of_try
              unban_try_not_applied [OF member database pre m Inl] split: sum.splits)
      next
        case (Inr y)
        note path = unban_try_applied [OF member database pre m Inr, of command rsn "fst doc" post]
        have h: "unban_handler E command usr rsn (pre @ (fst doc, m) # post) = (r, db', t)"
          using run unfolding db .
        have "db' = pre @ (fst doc, set_removed (removed_by E command name rsn) m) # post
           \<and> filter is_database_update t =
               [FindOneAndUpdate (user_id usr) (removed_by E command name rsn)]
           \<and> MembersUnban (user_id usr) (Some rsn) \<in> set t
           \<and> SleepListRemove (fst doc) \<in> set t"
        proof (cases "members_unban_outcome E")
          case (Inl e1)
          with h success show ?thesis
            by (simp add: unban_handler_of_try path split: sum.splits) auto
        next
          case unbanned: (Inr u1)
          show ?thesis
          proof (cases "sleep_list_remove_outcome E")
            case (Inl e2)
            with h success unbanned show ?thesis
              by (simp add: unban_handler_of_try path split: sum.splits) auto
          next
            case (Inr u2)
            have t: "t = events (unban_handler E command usr rsn (pre @ (fst doc, m) # post))"
              and d: "db' = final_db (unban_handler E command usr rsn (pre @ (fst doc, m) # post))"
              using h by (simp_all add: obs_defs)
            show ?thesis
              unfolding t d
              by (simp add: unban_handler_of_try path unbanned Inr obs_defs split: sum.split)
          qed
        qed
        with member db pre m show ?thesis
          by (auto simp add: set_removed_def removed_by_def)
      qed
    qed
  qed
qed

text \<open>A revoke of the example ban, with a backend that reports the ban.\<close>

theorem unban_success_updates_record_witness:
  "unban_handler (example_env\<lparr>bans_fetch := \<lambda>_. Inr ()\<rparr>) example_command example_user ''appeal''
       example_db =
     (Inr (),
      [(1, example_entry\<lparr>active := False,
             removed := Some \<lparr> edit_moderator = ''900'', edit_moderator_name = ''Operator'',
                              edit_reason = Some ''appeal'', edit_timestamp = 1000 \<rparr>\<rparr>)],
      [FindOneAndUpdate ''42''
         \<lparr> edit_moderator = ''900'', edit_moderator_name = ''Operator'',
           edit_reason = Some ''appeal'', edit_timestamp = 1000 \<rparr>,
       BansFetch ''42'', LogInfo ''Unbanning Target'', MembersUnban ''42'' (Some ''appeal''),
       SleepListRemove 1, ReplyWithSuccessAction ''42'' ''unbanned'' False False None,
       StaffActionLogSend 7])
   \<and> (\<exists>name pre oid m post.
        example_db = pre @ (oid, m) # post
      \<and> active_ban_of ''42'' m
      \<and> [(1, example_entry\<lparr>active := False,
             removed := Some \<lparr> edit_moderator = ''900'', edit_moderator_name = ''Operator'',
                              edit_reason = Some ''appeal'', edit_timestamp = 1000 \<rparr>\<rparr>)] =
          pre @ (oid, m\<lparr>active := False,
                        removed := Some \<lparr> edit_moderator = ''900'', edit_moderator_name = name,
                                         edit_reason = Some ''appeal'',
                                         edit_timestamp = 1000 \<rparr>\<rparr>) # post
      \<and> SleepListRemove oid \<in> set [SleepListRemove 1])"
proof -
  have run: "unban_handler (example_env\<lparr>bans_fetch := \<lambda>_. Inr ()\<rparr>) example_command example_user
       ''appeal'' example_db =
     (Inr (),
      [(1, example_entry\<lparr>active := False,
             removed := Some \<lparr> edit_moderator = ''900'', edit_moderator_name = ''Operator'',
                              edit_reason = Some ''appeal'', edit_timestamp = 1000 \<rparr>\<rparr>)],
      [FindOneAndUpdate ''42''
         \<lparr> edit_moderator = ''900'', edit_moderator_name = ''Operator'',
           edit_reason = Some ''appeal'', edit_timestamp = 1000 \<rparr>,
       BansFetch ''42'', LogInfo ''Unbanning Target'', MembersUnban ''42'' (Some ''appeal''),
       SleepListRemove 1, ReplyWithSuccessAction ''42'' ''unbanned'' False False None,
       StaffActionLogSend 7])"
    by (simp add: unban_handler_def unban_try_def moderations_findOneAndUpdate_def
        is_moderation_applied_def remove_moderation_def active_ban_of_def set_removed_def
        removed_by_def io_defs example_env_def example_command_def example_user_def
        example_db_def example_entry_def new_moderation_def)
  from unban_success_updates_record [OF run] run show ?thesis
    by (auto simp add: example_env_def example_command_def example_user_def)
qed

text \<open>
  Claim C7 says that the mismatch failure (record active, backend not banned) carries a
  message that tells it from the failure for a missing record. Both are answered by the
  same branch: for the empty collection and for the example collection with a backend
  that knows no ban, the replies are the same, ``User is not banned''; the two runs differ
  only in the collection, which the second one has changed.
\<close>

theorem unban_failures_same_message_counterexample:
  "replies (events (unban_handler example_env example_command example_user ''appeal'' [])) =
     replies (events (unban_handler example_env example_command example_user ''appeal'' example_db))
   \<and> replies (events (unban_handler example_env example_command example_user ''appeal'' example_db))
       = [ReplyWithError ''User is not banned'']
   \<and> final_db (unban_handler example_env example_command example_user ''appeal'' example_db)
       \<noteq> example_db"
  by (simp add: unban_handler_def unban_try_def moderations_findOneAndUpdate_def
      is_moderation_applied_def active_ban_of_def set_removed_def
      removed_by_def io_defs obs_defs example_env_def example_command_def example_user_def
      example_db_def example_entry_def new_moderation_def)

text \<open>
  Claim C7 as amended. The failure for a record/backend mismatch is surfaced to the caller
  as an error reply with the same message, ``User is not banned'', as the failure for a
  missing record: the replies and the result of the two runs are equal.
\<close>

theorem unban_failures_same_message:
  assumes member: "get_member_displayName E = Inr name"
    and database: "database_outcome E = Inr ()"
    and no_record: "list_all (\<lambda>d. \<not> active_ban_of (user_id usr) (snd d)) db"
    and first_match: "list_all (\<lambda>d. \<not> active_ban_of (user_id usr) (snd d)) pre"
    and found: "active_ban_of (user_id usr) m"
    and backend: "bans_fetch E (user_id usr) = Inl e"
  shows "replies (events (unban_handler E command usr rsn (pre @ (oid, m) # post))) =
           replies (events (unban_handler E command usr rsn db))
       \<and> result (unban_handler E command usr rsn (pre @ (oid, m) # post)) =
           result (unban_handler E command usr rsn db)
       \<and> hd (replies (events (unban_handler E command usr rsn (pre @ (oid, m) # post)))) =
           ReplyWithError ''User is not banned''
       \<and> hd (replies (events (unban_handler E command usr rsn db))) =
           ReplyWithError ''User is not banned''"
  using assms
  by (simp add: unban_handler_of_try unban_try_not_applied unban_try_no_record obs_defs
      split: sum.split)

text \<open>The two failures on the example environment.\<close>

theorem unban_failures_same_message_witness:
  "replies (events (unban_handler example_env example_command example_user ''appeal'' example_db)) =
     replies (events (unban_handler example_env example_command example_user ''appeal'' []))
   \<and> hd (replies (events (unban_handler example_env example_command example_user ''appeal''
         example_db))) = ReplyWithError ''User is not banned''"
  using unban_failures_same_message [of example_env "''Operator''" example_user "[]" "[]"
      example_entry "Error ''Unknown Ban''" example_command "''appeal''" 1 "[]"]
  by (simp add: example_env_def example_user_def example_db_def
      example_entry_def new_moderation_def active_ban_of_def)

subsection \<open>Exceptions and replies\<close>

lemma ban_handler_of_try:
  "ban_handler E command usr ds rsn db =
     (case ban_try E command usr ds rsn db of
        (Inl e, db', t) \<Rightarrow>
          (case reply_with_error_outcome E ''Error banning'' of
             Inl e' \<Rightarrow> (Inl e', db', t @ [ReplyWithError ''Error banning''])
           | Inr _ \<Rightarrow> (Inr (), db', t @ [ReplyWithError ''Error banning'', CriticalError e]))
      | (Inr r, db', t) \<Rightarrow> (r, db', t))"
  by (simp add: ban_handler_def io_defs split: sum.splits prod.splits)

text \<open>
  Claim C8 says that every exception is answered with the generic message and forwarded
  to the critical-error sink. The catch block awaits the reply before it calls
  \<^verbatim>\<open>critical_error\<close>: when the database call throws and the generic reply fails as well,
  the handler rejects with the exception of the reply and \<^verbatim>\<open>critical_error\<close> is never
  called.
\<close>

theorem handler_catch_counterexample:
  "unban_handler
     (example_env\<lparr>database_outcome := Inl (Error ''connection lost''),
                  reply_with_error_outcome := \<lambda>_. Inl (Error ''Missing Permissions'')\<rparr>)
     example_command example_user ''appeal'' example_db =
     (Inl (Error ''Missing Permissions''), example_db,
      [FindOneAndUpdate ''42'' (removed_by example_env example_command ''Operator'' ''appeal''),
       ReplyWithError ''Error unbanning''])
   \<and> critical_errors (events (unban_handler
        (example_env\<lparr>database_outcome := Inl (Error ''connection lost''),
                     reply_with_error_outcome := \<lambda>_. Inl (Error ''Missing Permissions'')\<rparr>)
        example_command example_user ''appeal'' example_db)) = []"
  by (simp add: unban_handler_def unban_try_def moderations_findOneAndUpdate_def
      removed_by_def io_defs obs_defs example_env_def example_command_def example_user_def)

text \<open>
  Claim C8 as amended. Every exception \<open>e\<close> thrown inside the \<^verbatim>\<open>try\<close> block of
  \<^verbatim>\<open>ban_handler\<close> or \<^verbatim>\<open>unban_handler\<close> is caught, and the handler then makes the reply with
  the fixed message ``Error banning'' or ``Error unbanning'', which does not depend on
  \<open>e\<close>; when that reply is delivered, \<open>e\<close> is given to \<^verbatim>\<open>critical_error\<close> and the handler
  resolves; when the reply fails, the handler rejects with the reply's exception and
  \<^verbatim>\<open>critical_error\<close> is not called.
\<close>

theorem handler_catch:
  "(ban_try E command usr ds rsn db = (Inl e, db', t) \<longrightarrow>
      ban_handler E command usr ds rsn db =
        (case reply_with_error_outcome E ''Error banning'' of
           Inl e' \<Rightarrow> (Inl e', db', t @ [ReplyWithError ''Error banning''])
         | Inr _ \<Rightarrow> (Inr (), db', t @ [ReplyWithError ''Error banning'', CriticalError e])))
   \<and> (unban_try E command usr why db = (Inl e, db', t) \<longrightarrow>
      unban_handler E command usr why db =
        (case reply_with_error_outcome E ''Error unbanning'' of
           Inl e' \<Rightarrow> (Inl e', db', t @ [ReplyWithError ''Error unbanning''])
         | Inr _ \<Rightarrow> (Inr (), db', t @ [ReplyWithError ''Error unbanning'', CriticalError e])))"
  by (simp add: ban_handler_of_try unban_handler_of_try)

text \<open>
  A ban whose fetch of the operator's member data fails, and an unban whose database call
  fails; the generic reply is delivered in both.
\<close>

theorem handler_catch_witness:
  "ban_handler (example_env\<lparr>get_member_displayName := Inl (Error ''Unknown Member'')\<rparr>)
     example_command example_user (Some ''1h'') None example_db =
     (Inr (), example_db,
      [BansFetch ''42'', ReplyWithError ''Error banning'', CriticalError (Error ''Unknown Member'')])
   \<and> unban_handler (example_env\<lparr>database_outcome := Inl (Error ''connection lost'')\<rparr>)
       example_command example_user ''appeal'' example_db =
     (Inr (), example_db,
      [FindOneAndUpdate ''42'' (removed_by example_env example_command ''Operator'' ''appeal''),
       ReplyWithError ''Error unbanning'', CriticalError (Error ''connection lost'')])"
proof -
  have b: "ban_try (example_env\<lparr>get_member_displayName := Inl (Error ''Unknown Member'')\<rparr>)
      example_command example_user (Some ''1h'') None example_db =
      (Inl (Error ''Unknown Member''), example_db, [BansFetch ''42''])"
    by (simp add: ban_try_def is_moderation_applied_def parse_nullable_duration_def io_defs
        example_env_def example_user_def)
  have u: "unban_try (example_env\<lparr>database_outcome := Inl (Error ''connection lost'')\<rparr>)
      example_command example_user ''appeal'' example_db =
      (Inl (Error ''connection lost''), example_db,
       [FindOneAndUpdate ''42'' (removed_by example_env example_command ''Operator'' ''appeal'')])"
    by (simp add: unban_try_def moderations_findOneAndUpdate_def removed_by_def io_defs
        example_env_def example_user_def)
  from b u
    handler_catch [of "example_env\<lparr>get_member_displayName := Inl (Error ''Unknown Member'')\<rparr>"
      example_command example_user "Some ''1h''" None example_db "Error ''Unknown Member''"
      example_db "[BansFetch ''42'']"]
    handler_catch [of "example_env\<lparr>database_outcome := Inl (Error ''connection lost'')\<rparr>"
      example_command example_user _ _ example_db "Error ''connection lost''" example_db
      "[FindOneAndUpdate ''42'' (removed_by example_env example_command ''Operator'' ''appeal'')]"
      "''appeal''"]
  show ?thesis
    by (simp add: example_env_def)
qed

lemma ban_try_replies:
  "length (replies (events (ban_try E command usr ds rsn db))) \<le> 1
   \<and> (\<forall>r. result (ban_try E command usr ds rsn db) = Inr r \<longrightarrow>
         length (replies (events (ban_try E command usr ds rsn db))) = 1)
   \<and> (\<forall>e. result (ban_try E command usr ds rsn db) = Inr (Inl e) \<longrightarrow>
         (\<exists>msg. last (events (ban_try E command usr ds rsn db)) = ReplyWithError msg
            \<and> reply_with_error_outcome E msg = Inl e))"
  by (simp add: ban_try_def is_moderation_applied_def io_defs obs_defs
      split: sum.split option.split prod.split)

lemma unban_cases:
  fixes E :: env and usr :: discord_user and db :: moderations
  obtains
    (member_throws) e where "get_member_displayName E = Inl e"
  | (database_throws) name e where "get_member_displayName E = Inr name"
      and "database_outcome E = Inl e"
  | (no_record) name where "get_member_displayName E = Inr name"
      and "database_outcome E = Inr ()"
      and "list_all (\<lambda>d. \<not> active_ban_of (user_id usr) (snd d)) db"
  | (found) name pre oid m post where "get_member_displayName E = Inr name"
      and "database_outcome E = Inr ()"
      and "db = pre @ (oid, m) # post"
      and "list_all (\<lambda>d. \<not> active_ban_of (user_id usr) (snd d)) pre"
      and "active_ban_of (user_id usr) m"
proof (cases "get_member_displayName E")
  case (Inl e)
  then show ?thesis by (rule member_throws)
next
  case member: (Inr name)
  show ?thesis
  proof (cases "database_outcome E")
    case (Inl e)
    with member show ?thesis by (rule database_throws)
  next
    case (Inr x)
    then have database: "database_outcome E = Inr ()" by simp
    obtain res db2 where
      f: "findOneAndUpdate (active_ban_of (user_id usr)) id db = (res, db2)"
      by (cases "findOneAndUpdate (active_ban_of (user_id usr)) id db")
    show ?thesis
    proof (cases res)
      case None
      with f have "list_all (\<lambda>d. \<not> active_ban_of (user_id usr) (snd d)) db"
        by (simp add: findOneAndUpdate_None)
      with member database show ?thesis by (rule no_record)
    next
      case (Some doc)
      with f obtain pre m post where
        "db = pre @ (fst doc, m) # post"
        "list_all (\<lambda>d. \<not> active_ban_of (user_id usr) (snd d)) pre"
        "active_ban_of (user_id usr) m"
        using findOneAndUpdate_Some by blast
      with member database show ?thesis by (rule found)
    qed
  qed
qed

lemma unban_try_replies:
  "length (replies (events (unban_try E command usr rsn db))) \<le> 1
   \<and> (\<forall>x. result (unban_try E command usr rsn db) = Inr x \<longrightarrow>
         length (replies (events (unban_try E command usr rsn db))) = 1)"
proof (cases rule: unban_cases [where E = E and usr = usr and db = db])
  case (member_throws e)
  then show ?thesis
    by (simp add: unban_try_member_throws obs_defs)
next
  case (database_throws name e)
  then show ?thesis
    by (simp add: unban_try_database_throws obs_defs)
next
  case (no_record name)
  then show ?thesis
    by (simp add: unban_try_no_record obs_defs)
next
  case (found name pre oid m post)
  show ?thesis
  proof (cases "bans_fetch E (user_id usr)")
    case (Inl e)
    with found show ?thesis
      by (simp add: unban_try_not_applied obs_defs)
  next
    case (Inr y)
    with found show ?thesis
      by (simp add: unban_try_applied obs_defs split: sum.split)
  qed
qed

text \<open>
  Claim C10 says that every invocation sends exactly one reply, never an error reply and
  a success reply together. In \<^verbatim>\<open>unban_handler\<close> the post to the staff action log comes
  after the success reply, inside the same \<^verbatim>\<open>try\<close> block: when that post fails, the
  handler has sent the success reply and then sends the error reply ``Error unbanning''.
\<close>

theorem handlers_reply_exactly_once_counterexample:
  "unban_handler
     (example_env\<lparr>bans_fetch := \<lambda>_. Inr (),
                  staff_action_log_send_outcome := Inl (Error ''Missing Access'')\<rparr>)
     example_command example_user ''appeal'' example_db =
     (Inr (),
      [(1, set_removed (removed_by example_env example_command ''Operator'' ''appeal'')
             example_entry)],
      [FindOneAndUpdate ''42'' (removed_by example_env example_command ''Operator'' ''appeal''),
       BansFetch ''42'', LogInfo ''Unbanning Target'', MembersUnban ''42'' (Some ''appeal''),
       SleepListRemove 1, ReplyWithSuccessAction ''42'' ''unbanned'' False False None,
       StaffActionLogSend 7, ReplyWithError ''Error unbanning'',
       CriticalError (Error ''Missing Access'')])
   \<and> replies (events (unban_handler
        (example_env\<lparr>bans_fetch := \<lambda>_. Inr (),
                     staff_action_log_send_outcome := Inl (Error ''Missing Access'')\<rparr>)
        example_command example_user ''appeal'' example_db)) =
       [ReplyWithSuccessAction ''42'' ''unbanned'' False False None,
        ReplyWithError ''Error unbanning'']"
  by (simp add: unban_handler_def unban_try_def moderations_findOneAndUpdate_def
      is_moderation_applied_def remove_moderation_def active_ban_of_def set_removed_def
      removed_by_def io_defs obs_defs example_env_def example_command_def example_user_def
      example_db_def example_entry_def new_moderation_def)

text \<open>
  Claim C10 as amended. Every invocation of \<^verbatim>\<open>ban_handler\<close> and of \<^verbatim>\<open>unban_handler\<close> makes
  one or two reply calls. When no call inside the \<^verbatim>\<open>try\<close> block throws, the handler makes
  exactly one reply call, that of the block, and resolves once this reply is delivered;
  a second reply, the generic error reply, is made only after a call inside the block
  has thrown. The handler rejects only with the exception of a failed
  \<^verbatim>\<open>reply_with_error\<close> call, which is then its last call.
\<close>

theorem handlers_reply_once_or_twice:
  "1 \<le> length (replies (events (ban_handler E command usr ds rsn db)))
   \<and> length (replies (events (ban_handler E command usr ds rsn db))) \<le> 2
   \<and> (\<forall>r. result (ban_try E command usr ds rsn db) = Inr r \<longrightarrow>
         events (ban_handler E command usr ds rsn db) = events (ban_try E command usr ds rsn db)
         \<and> length (replies (events (ban_handler E command usr ds rsn db))) = 1)
   \<and> (result (ban_try E command usr ds rsn db) = Inr (Inr ()) \<longrightarrow>
         result (ban_handler E command usr ds rsn db) = Inr ())
   \<and> (\<forall>e. result (ban_handler E command usr ds rsn db) = Inl e \<longrightarrow>
         (\<exists>msg. last (events (ban_handler E command usr ds rsn db)) = ReplyWithError msg
            \<and> reply_with_error_outcome E msg = Inl e))
   \<and> 1 \<le> length (replies (events (unban_handler E command usr why db)))
   \<and> length (replies (events (unban_handler E command usr why db))) \<le> 2
   \<and> (\<forall>x. result (unban_try E command usr why db) = Inr x \<longrightarrow>
         unban_handler E command usr why db = unban_try E command usr why db
         \<and> length (replies (events (unban_handler E command usr why db))) = 1)
   \<and> (\<forall>e. result (unban_handler E command usr why db) = Inl e \<longrightarrow>
         last (events (unban_handler E command usr why db)) = ReplyWithError ''Error unbanning''
         \<and> reply_with_error_outcome E ''Error unbanning'' = Inl e)"
proof -
  obtain rb db1 t1 where b: "ban_try E command usr ds rsn db = (rb, db1, t1)"
    by (cases "ban_try E command usr ds rsn db")
  obtain ru db2 t2 where u: "unban_try E command usr why db = (ru, db2, t2)"
    by (cases "unban_try E command usr why db")
  from ban_try_replies [of E command usr ds rsn db] b
  have tb: "length (replies t1) \<le> 1"
    and tb1: "\<And>r. rb = Inr r \<Longrightarrow> length (replies t1) = 1"
    and tb2: "\<And>e. rb = Inr (Inl e) \<Longrightarrow>
         \<exists>msg. last t1 = ReplyWithError msg \<and> reply_with_error_outcome E msg = Inl e"
    by (simp_all add: obs_defs)
  from unban_try_replies [of E command usr why db] u
  have tu: "length (replies t2) \<le> 1"
    and tu1: "\<And>x. ru = Inr x \<Longrightarrow> length (replies t2) = 1"
    by (simp_all add: obs_defs)
  have ban:
    "1 \<le> length (replies (events (ban_handler E command usr ds rsn db)))
     \<and> length (replies (events (ban_handler E command usr ds rsn db))) \<le> 2
     \<and> (\<forall>r. result (ban_try E command usr ds rsn db) = Inr r \<longrightarrow>
         events (ban_handler E command usr ds rsn db) = events (ban_try E command usr ds rsn db)
         \<and> length (replies (events (ban_handler E command usr ds rsn db))) = 1)
     \<and> (result (ban_try E command usr ds rsn db) = Inr (Inr ()) \<longrightarrow>
         result (ban_handler E command usr ds rsn db) = Inr ())
     \<and> (\<forall>e. result (ban_handler E command usr ds rsn db) = Inl e \<longrightarrow>
         (\<exists>msg. last (events (ban_handler E command usr ds rsn db)) = ReplyWithError msg
            \<and> reply_with_error_outcome E msg = Inl e))"
  proof (cases rb)
    case (Inl e)
    with b tb show ?thesis
      by (simp add: ban_handler_of_try obs_defs split: sum.split)
  next
    case (Inr r)
    with b tb1 [OF Inr] tb2 show ?thesis
      by (simp add: ban_handler_of_try obs_defs)
  qed
  have unban:
    "1 \<le> length (replies (events (unban_handler E command usr why db)))
     \<and> length (replies (events (unban_handler E command usr why db))) \<le> 2
     \<and> (\<forall>x. result (unban_try E command usr why db) = Inr x \<longrightarrow>
         unban_handler E command usr why db = unban_try E command usr why db
         \<and> length (replies (events (unban_handler E command usr why db))) = 1)
     \<and> (\<forall>e. result (unban_handler E command usr why db) = Inl e \<longrightarrow>
         last (events (unban_handler E command usr why db)) = ReplyWithError ''Error unbanning''
         \<and> reply_with_error_outcome E ''Error unbanning'' = Inl e)"
  proof (cases ru)
    case (Inl e)
    with u tu show ?thesis
      by (simp add: unban_handler_of_try obs_defs split: sum.split)
  next
    case (Inr x)
    with u tu1 [OF Inr] show ?thesis
      by (simp add: unban_handler_of_try obs_defs)
  qed
  from ban unban show ?thesis by (elim conjE) (intro conjI, assumption+)
qed

text \<open>
  A ban where every collaborator succeeds, and an unban where the fetch of the operator's
  member data and the generic reply both fail.
\<close>

theorem handlers_reply_once_or_twice_witness:
  "events (ban_handler example_env example_command example_user (Some ''1h'') None example_db) =
     [BansFetch ''42'',
      NotifyUser ''42'' ''banned''
        (new_moderation example_env example_command example_user None (Ms 3600000) ''Operator''),
      RegisterNewModeration
        (new_moderation example_env example_command example_user None (Ms 3600000) ''Operator''),
      ReplyWithSuccessAction ''42'' ''banned'' False True (Some 7)]
   \<and> length (replies (events (ban_handler example_env example_command example_user (Some ''1h'')
        None example_db))) = 1
   \<and> result (ban_handler example_env example_command example_user (Some ''1h'') None example_db)
       = Inr ()
   \<and> last (events (unban_handler
        (example_env\<lparr>get_member_displayName := Inl (Error ''Unknown Member''),
                     reply_with_error_outcome := \<lambda>_. Inl (Error ''Missing Permissions'')\<rparr>)
        example_command example_user ''appeal'' example_db)) = ReplyWithError ''Error unbanning''"
proof -
  have b: "result (ban_try example_env example_command example_user (Some ''1h'') None example_db)
      = Inr (Inr ())"
    and eb: "events (ban_try example_env example_command example_user (Some ''1h'') None
      example_db) =
      [BansFetch ''42'',
       NotifyUser ''42'' ''banned''
         (new_moderation example_env example_command example_user None (Ms 3600000) ''Operator''),
       RegisterNewModeration
         (new_moderation example_env example_command example_user None (Ms 3600000) ''Operator''),
       ReplyWithSuccessAction ''42'' ''banned'' False True (Some 7)]"
    by (simp_all add: ban_try_def is_moderation_applied_def parse_nullable_duration_def io_defs
        obs_defs example_env_def example_user_def)
  have u: "result (unban_handler
        (example_env\<lparr>get_member_displayName := Inl (Error ''Unknown Member''),
                     reply_with_error_outcome := \<lambda>_. Inl (Error ''Missing Permissions'')\<rparr>)
        example_command example_user ''appeal'' example_db) = Inl (Error ''Missing Permissions'')"
    by (simp add: unban_handler_def unban_try_def io_defs obs_defs example_env_def)
  from b eb
    handlers_reply_once_or_twice [of example_env example_command example_user "Some ''1h''" None
      example_db "''appeal''"]
  have "events (ban_handler example_env example_command example_user (Some ''1h'') None example_db) =
     [BansFetch ''42'',
      NotifyUser ''42'' ''banned''
        (new_moderation example_env example_command example_user None (Ms 3600000) ''Operator''),
      RegisterNewModeration
        (new_moderation example_env example_command example_user None (Ms 3600000) ''Operator''),
      ReplyWithSuccessAction ''42'' ''banned'' False True (Some 7)]
   \<and> length (replies (events (ban_handler example_env example_command example_user (Some ''1h'')
        None example_db))) = 1
   \<and> result (ban_handler example_env example_command example_user (Some ''1h'') None example_db)
       = Inr ()"
    by (simp add: replies_def)
  moreover from u
    handlers_reply_once_or_twice [of
      "example_env\<lparr>get_member_displayName := Inl (Error ''Unknown Member''),
                   reply_with_error_outcome := \<lambda>_. Inl (Error ''Missing Permissions'')\<rparr>"
      example_command example_user None None example_db "''appeal''"]
  have "last (events (unban_handler
        (example_env\<lparr>get_member_displayName := Inl (Error ''Unknown Member''),
                     reply_with_error_outcome := \<lambda>_. Inl (Error ''Missing Permissions'')\<rparr>)
        example_command example_user ''appeal'' example_db)) = ReplyWithError ''Error unbanning''"
    by blast
  ultimately show ?thesis by (elim conjE) (intro conjI, assumption+)
qed

end
